theory Spec2Isabelle
  imports Complex_Main "HOL-Library.Sublist"
begin

section \<open>Python primitives used by \<open>scoring.py\<close>\<close>

text \<open>
  Modelling conventions.
  \<^item> Python \<open>float\<close> values (scores, temperatures, precipitation) are modelled as
    \<^typ>\<open>real\<close>: arithmetic is exact, there is no NaN, no infinity and no binary
    rounding error. \<open>math.exp\<close> is \<^const>\<open>exp\<close> and \<open>x ** 0.6\<close> is \<open>x powr 0.6\<close>.
  \<^item> Python \<open>str\<close> is \<^typ>\<open>string\<close>, the UTF-8 bytes of the text: one string occurs
    in another as a sequence of code points exactly when its bytes occur in the bytes of
    the other. \<open>str.lower()\<close> and \<open>str.upper()\<close> follow the Unicode tables, which are no
    part of the program: they are the parameters \<open>str_lower\<close> and \<open>str_upper\<close> of every
    function that calls them, and nothing is assumed of them unless a theorem says so.
  \<^item> A dict read \<open>d.get(k, default)\<close> is an \<^typ>\<open>'a option\<close> field with the default
    written out; a dict read \<open>d[k]\<close> raises \<open>KeyError\<close> on \<open>None\<close>.
  \<^item> An exception is the \<open>Inl\<close> side of a sum.
\<close>

datatype py_error = KeyError | IndexError

text \<open>\<open>d[k]\<close> on a dict whose entry for \<open>k\<close> may be missing.\<close>

definition dict_item :: "'a option \<Rightarrow> py_error + 'a" where
  "dict_item v = (case v of None \<Rightarrow> Inl KeyError | Some x \<Rightarrow> Inr x)"

text \<open>\<open>xs[i]\<close>: a negative index counts from the end, out of range raises.\<close>

definition list_item :: "'a list \<Rightarrow> int \<Rightarrow> py_error + 'a" where
  "list_item xs i =
     (if 0 \<le> i \<and> i < int (length xs) then Inr (xs ! nat i)
      else if i < 0 \<and> - int (length xs) \<le> i then Inr (xs ! nat (int (length xs) + i))
      else Inl IndexError)"

text \<open>\<open>xs[:n]\<close>: a negative stop counts from the end.\<close>

definition slice_to :: "'a list \<Rightarrow> int \<Rightarrow> 'a list" where
  "slice_to xs n =
     (if 0 \<le> n then take (nat n) xs else take (nat (int (length xs) + n)) xs)"

text \<open>
  \<open>round(x, ndigits)\<close> on a float rounds to the nearest multiple of \<open>10 ** -ndigits\<close>,
  a tie going to the even neighbour.
\<close>

definition round_half_even :: "real \<Rightarrow> int" where
  "round_half_even x =
     (let f = \<lfloor>x\<rfloor>; d = x - of_int f
      in if d < 1 / 2 then f
         else if 1 / 2 < d then f + 1
         else if even f then f else f + 1)"

definition py_round :: "real \<Rightarrow> nat \<Rightarrow> real" where
  "py_round x ndigits = of_int (round_half_even (x * 10 ^ ndigits)) / 10 ^ ndigits"

text \<open>\<open>a in b\<close> on strings: \<open>a\<close> occurs in \<open>b\<close> as a contiguous piece.\<close>

definition str_in :: "string \<Rightarrow> string \<Rightarrow> bool" where
  "str_in a b = sublist a b"

text \<open>
  \<open>xs.sort(key=key, reverse=True)\<close>: Python's sort is stable and \<open>reverse=True\<close> keeps
  equal keys in their original order. A stable ascending sort on the negated key does
  the same on numbers.
\<close>

definition sort_reverse :: "('a \<Rightarrow> real) \<Rightarrow> 'a list \<Rightarrow> 'a list" where
  "sort_reverse key xs = sort_key (\<lambda>x. - key x) xs"


section \<open>Component scorers\<close>

definition score_temperature :: "real \<Rightarrow> real option \<Rightarrow> real option \<Rightarrow> real" where
  "score_temperature city_temp temp_min temp_max =
     (if temp_min = None \<and> temp_max = None then 0.65
      else
        let tmin0 = (case temp_min of None \<Rightarrow> city_temp - 10 | Some v \<Rightarrow> v);
            tmax0 = (case temp_max of None \<Rightarrow> city_temp + 10 | Some v \<Rightarrow> v);
            tmin = min tmin0 tmax0;
            tmax = max tmin0 tmax0
        in if tmin \<le> city_temp \<and> city_temp \<le> tmax then
             let mid = (tmin + tmax) / 2;
                 half_range = max ((tmax - tmin) / 2) 1;
                 closeness = 1.0 - 0.15 * \<bar>city_temp - mid\<bar> / half_range
             in py_round (max 0.85 closeness) 4
           else
             let gap = max (tmin - city_temp) (city_temp - tmax);
                 sigma = max ((tmax - tmin) / 2) 3;
                 score = exp (- 0.5 * (gap / sigma) ^ 2)
             in py_round (max 0.0 score) 4)"

definition score_precipitation :: "real \<Rightarrow> string \<Rightarrow> real" where
  "score_precipitation monthly_precip rain_tolerance =
     (let base = max 0.0 (1.0 - monthly_precip / 300.0)
      in if rain_tolerance = ''low'' then py_round (base powr 0.6) 4
         else if rain_tolerance = ''high'' then py_round (0.5 + base * 0.5) 4
         else py_round base 4)"

definition classify_season :: "int \<Rightarrow> int list \<Rightarrow> int list \<Rightarrow> string" where
  "classify_season month peak_months shoulder_months =
     (if month \<in> set peak_months then ''peak''
      else if month \<in> set shoulder_months then ''shoulder''
      else ''off'')"

definition crowd_table :: "(string \<times> (string \<times> real) list) list" where
  "crowd_table =
     [(''off_peak'', [(''off'', 1.0), (''shoulder'', 0.55), (''peak'', 0.05)]),
      (''shoulder'', [(''shoulder'', 1.0), (''off'', 0.7), (''peak'', 0.25)]),
      (''any'', [(''shoulder'', 1.0), (''off'', 0.85), (''peak'', 0.75)])]"

definition score_crowd :: "int \<Rightarrow> int list \<Rightarrow> int list \<Rightarrow> string \<Rightarrow> py_error + real" where
  "score_crowd month peak_months shoulder_months crowd_preference =
     (let season = classify_season month peak_months shoulder_months
      in case dict_item (map_of crowd_table ''any'') of
           Inl e \<Rightarrow> Inl e
         | Inr any_row \<Rightarrow>
             (let row = (case map_of crowd_table crowd_preference of
                           None \<Rightarrow> any_row | Some r \<Rightarrow> r)
              in dict_item (map_of row season)))"

definition tag_matches :: "string list \<Rightarrow> string \<Rightarrow> bool" where
  "tag_matches city_tags_l pt =
     (pt \<in> set city_tags_l
      \<or> list_ex (\<lambda>ct. str_in pt ct \<or> str_in ct pt) city_tags_l)"

definition score_tags :: "(string \<Rightarrow> string) \<Rightarrow> string list \<Rightarrow> string list \<Rightarrow> real" where
  "score_tags str_lower city_tags preferred_tags =
     (if preferred_tags = [] then 0.65
      else if city_tags = [] then 0.2
      else
        let city_tags_l = map str_lower city_tags;
            preferred_tags_l = map str_lower preferred_tags;
            matches = length (filter (tag_matches city_tags_l) preferred_tags_l)
        in py_round (min 1.0 (real matches / real (length preferred_tags_l))) 4)"


section \<open>Data model\<close>

text \<open>
  A city and a preference record are Python dicts. Every key the engine reads is a field;
  \<open>None\<close> stands for a key that is absent.
\<close>

record city =
  name :: "string option"
  country :: "string option"
  region :: "string option"
  monthly_temp :: "real list option"
  monthly_precip :: "real list option"
  peak_months :: "int list option"
  shoulder_months :: "int list option"
  tags :: "string list option"

record preferences =
  travel_month :: "int option"
  temp_min :: "real option"
  temp_max :: "real option"
  rain_tolerance :: "string option"
  crowd_preference :: "string option"
  environment_tags :: "string list option"
  exclude_regions :: "string list option"
  num_results :: "int option"

text \<open>The dicts under the keys \<open>"scores"\<close> and \<open>"month_data"\<close> of a result, and the result.\<close>

record scores =
  s_temp :: real
  s_rain :: real
  s_crowd :: real
  s_tags :: real
  s_final :: real

record month_data =
  md_temp :: real
  md_precip :: real
  md_season :: string

record result =
  r_city :: city
  r_scores :: scores
  r_month_data :: month_data

text \<open>\<open>d.get(k, default)\<close>.\<close>

definition dict_get :: "'a option \<Rightarrow> 'a \<Rightarrow> 'a" where
  "dict_get v dflt = (case v of None \<Rightarrow> dflt | Some x \<Rightarrow> x)"


section \<open>Main ranking function\<close>

text \<open>The test of the exclusion filter, lines 143 to 145 of \<open>scoring.py\<close>.\<close>

definition city_excluded :: "(string \<Rightarrow> string) \<Rightarrow> string list \<Rightarrow> city \<Rightarrow> bool" where
  "city_excluded str_lower exclude c =
     (let region_l = str_lower (dict_get (region c) []);
          country_l = str_lower (dict_get (country c) [])
      in list_ex (\<lambda>ex. str_in ex region_l \<or> str_in ex country_l) exclude)"

text \<open>The body of the loop for a city that passed the filter, lines 148 to 190.\<close>

definition score_city ::
  "(string \<Rightarrow> string) \<Rightarrow> int \<Rightarrow> real option \<Rightarrow> real option \<Rightarrow> string \<Rightarrow> string \<Rightarrow> string list \<Rightarrow> city
     \<Rightarrow> py_error + result" where
  "score_city str_lower month_0 tmin tmax rain_tol crowd_pref pref_tags c =
     (case dict_item (monthly_temp c) of Inl e \<Rightarrow> Inl e | Inr temps \<Rightarrow>
     (case list_item temps month_0 of Inl e \<Rightarrow> Inl e | Inr city_temp \<Rightarrow>
     (case dict_item (monthly_precip c) of Inl e \<Rightarrow> Inl e | Inr precips \<Rightarrow>
     (case list_item precips month_0 of Inl e \<Rightarrow> Inl e | Inr city_precip \<Rightarrow>
     (let peak = dict_get (peak_months c) [];
          shoulder = dict_get (shoulder_months c) [];
          t_score = score_temperature city_temp tmin tmax;
          r_score = score_precipitation city_precip rain_tol
      in (case score_crowd (month_0 + 1) peak shoulder crowd_pref of
            Inl e \<Rightarrow> Inl e
          | Inr c_score \<Rightarrow>
             (let g_score = score_tags str_lower (dict_get (tags c) []) pref_tags;
                  final = py_round (0.40 * t_score + 0.30 * r_score
                                    + 0.20 * c_score + 0.10 * g_score) 4;
                  m = month_0 + 1;
                  season_label =
                    (if m \<in> set peak then ''peak season''
                     else if m \<in> set shoulder then ''shoulder season''
                     else ''off season'')
              in Inr \<lparr>r_city = c,
                      r_scores = \<lparr>s_temp = t_score, s_rain = r_score, s_crowd = c_score,
                                  s_tags = g_score, s_final = final\<rparr>,
                      r_month_data = \<lparr>md_temp = city_temp, md_precip = city_precip,
                                      md_season = season_label\<rparr>\<rparr>)))))))"

text \<open>
  The loop over the catalog, lines 141 to 190: an excluded city is skipped before any of
  its arrays is read, the first exception ends the loop, and the results are appended in
  catalog order.
\<close>

fun score_all ::
  "(string \<Rightarrow> string) \<Rightarrow> int \<Rightarrow> real option \<Rightarrow> real option \<Rightarrow> string \<Rightarrow> string \<Rightarrow> string list \<Rightarrow> string list
     \<Rightarrow> city list \<Rightarrow> py_error + result list" where
  "score_all str_lower month_0 tmin tmax rain_tol crowd_pref pref_tags exclude [] = Inr []"
| "score_all str_lower month_0 tmin tmax rain_tol crowd_pref pref_tags exclude (c # cs) =
     (if city_excluded str_lower exclude c
      then score_all str_lower month_0 tmin tmax rain_tol crowd_pref pref_tags exclude cs
      else case score_city str_lower month_0 tmin tmax rain_tol crowd_pref pref_tags c of
             Inl e \<Rightarrow> Inl e
           | Inr r \<Rightarrow>
               (case score_all str_lower month_0 tmin tmax rain_tol crowd_pref pref_tags exclude cs of
                  Inl e \<Rightarrow> Inl e
                | Inr rs \<Rightarrow> Inr (r # rs)))"

definition rank_cities ::
  "(string \<Rightarrow> string) \<Rightarrow> city list \<Rightarrow> preferences \<Rightarrow> int \<Rightarrow> py_error + result list" where
  "rank_cities str_lower cities prefs top_n =
     (let month_0 = dict_get (travel_month prefs) 1 - 1;
          tmin = temp_min prefs;
          tmax = temp_max prefs;
          rain_tol = dict_get (rain_tolerance prefs) ''medium'';
          crowd_pref = dict_get (crowd_preference prefs) ''any'';
          pref_tags = dict_get (environment_tags prefs) [];
          exclude = map str_lower (dict_get (exclude_regions prefs) []);
          n = dict_get (num_results prefs) top_n
      in case score_all str_lower month_0 tmin tmax rain_tol crowd_pref pref_tags exclude cities of
           Inl e \<Rightarrow> Inl e
         | Inr results \<Rightarrow> Inr (slice_to (sort_reverse (\<lambda>x. s_final (r_scores x)) results) n))"

text \<open>The default of the parameter \<open>top_n\<close>.\<close>

definition default_top_n :: int where
  "default_top_n = 8"


section \<open>Result formatter\<close>

text \<open>
  The formatter prints numbers in two ways: \<open>f"{x:.2f}"\<close> and \<open>f"{x}"\<close>. Both are
  built-ins of Python on floats; they are the parameters \<open>fmt2\<close> and \<open>str_num\<close> here.
  Characters outside ASCII are written as their UTF-8 bytes.
\<close>

fun str_nat :: "nat \<Rightarrow> string" where
  "str_nat n =
     (if n < 10 then [char_of (of_char CHR ''0'' + n)]
      else str_nat (n div 10) @ [char_of (of_char CHR ''0'' + n mod 10)])"

fun join :: "string \<Rightarrow> string list \<Rightarrow> string" where
  "join sep [] = []"
| "join sep [x] = x"
| "join sep (x # y # ys) = x @ sep @ join sep (y # ys)"

definition degree_sign :: string where
  "degree_sign = [CHR 0xC2, CHR 0xB0]"

definition em_dash :: string where
  "em_dash = [CHR 0xE2, CHR 0x80, CHR 0x94]"

definition format_result ::
  "(real \<Rightarrow> string) \<Rightarrow> (real \<Rightarrow> string) \<Rightarrow> nat \<Rightarrow> result \<Rightarrow> py_error + string list" where
  "format_result fmt2 str_num i r =
     (let c = r_city r; sc = r_scores r; md = r_month_data r
      in (case dict_item (name c) of Inl e \<Rightarrow> Inl e | Inr nm \<Rightarrow>
         (case dict_item (country c) of Inl e \<Rightarrow> Inl e | Inr ctry \<Rightarrow>
         Inr [str_nat i @ ''. '' @ nm @ '', '' @ ctry @ ''  ''
                @ ''[Score: '' @ fmt2 (s_final sc) @ '']'',
              ''   Avg temp: '' @ str_num (md_temp md) @ degree_sign @ ''C | ''
                @ ''Precipitation: '' @ str_num (md_precip md) @ ''mm | ''
                @ ''Status: '' @ md_season md,
              ''   Score breakdown '' @ em_dash @ '' temp:'' @ fmt2 (s_temp sc) @ ''  ''
                @ ''rain:'' @ fmt2 (s_rain sc) @ ''  crowd:'' @ fmt2 (s_crowd sc) @ ''  ''
                @ ''tags:'' @ fmt2 (s_tags sc),
              ''   Tags: '' @ join '', '' (dict_get (tags c) []),
              []])))"

fun format_loop ::
  "(real \<Rightarrow> string) \<Rightarrow> (real \<Rightarrow> string) \<Rightarrow> nat \<Rightarrow> result list \<Rightarrow> py_error + string list" where
  "format_loop fmt2 str_num i [] = Inr []"
| "format_loop fmt2 str_num i (r # rs) =
     (case format_result fmt2 str_num i r of
        Inl e \<Rightarrow> Inl e
      | Inr ls \<Rightarrow>
          (case format_loop fmt2 str_num (Suc i) rs of
             Inl e \<Rightarrow> Inl e
           | Inr rest \<Rightarrow> Inr (ls @ rest)))"

definition format_results_for_claude ::
  "(real \<Rightarrow> string) \<Rightarrow> (real \<Rightarrow> string) \<Rightarrow> (string \<Rightarrow> string) \<Rightarrow> result list \<Rightarrow> string \<Rightarrow> py_error + string" where
  "format_results_for_claude fmt2 str_num str_upper ranked_results month_name =
     (if ranked_results = [] then
        Inr (''[No destinations matched the criteria for '' @ month_name
             @ ''. Suggest broadening preferences.]'')
      else
        case format_loop fmt2 str_num 1 ranked_results of
          Inl e \<Rightarrow> Inl e
        | Inr body \<Rightarrow>
            Inr (join [CHR 0x0A]
                  ([''[DATASET: TOP DESTINATIONS FOR '' @ str_upper month_name @ '']'', []]
                   @ body
                   @ [''[INSTRUCTION: Use the data above to explain your recommendations. ''
                      @ ''Cite actual temperatures and crowd status. ''
                      @ ''Do NOT invent data not shown above.]''])))"


section \<open>Notions of the specification\<close>






text \<open>The lowered exclusion terms of a preference record, line 130.\<close>

definition exclude_terms :: "(string \<Rightarrow> string) \<Rightarrow> preferences \<Rightarrow> string list" where
  "exclude_terms str_lower prefs = map str_lower (dict_get (exclude_regions prefs) [])"

text \<open>The list \<open>results\<close> as it stands at line 191, before it is sorted and cut.\<close>

definition scored_candidates ::
  "(string \<Rightarrow> string) \<Rightarrow> city list \<Rightarrow> preferences \<Rightarrow> py_error + result list" where
  "scored_candidates str_lower cities prefs =
     score_all str_lower (dict_get (travel_month prefs) 1 - 1) (temp_min prefs) (temp_max prefs)
       (dict_get (rain_tolerance prefs) ''medium'') (dict_get (crowd_preference prefs) ''any'')
       (dict_get (environment_tags prefs) []) (exclude_terms str_lower prefs) cities"

text \<open>The sort key, \<open>x["scores"]["final"]\<close>.\<close>

definition final_score :: "result \<Rightarrow> real" where
  "final_score x = s_final (r_scores x)"


section \<open>What \<open>str.lower()\<close> returns\<close>


definition ascii_lower_char :: "char \<Rightarrow> char" where
  "ascii_lower_char c =
     (let n = (of_char c :: nat)
      in if of_char CHR ''A'' \<le> n \<and> n \<le> of_char CHR ''Z'' then char_of (n + 32) else c)"

definition ascii_lower :: "string \<Rightarrow> string" where
  "ascii_lower s = map ascii_lower_char s"

text \<open>
  Outside ASCII \<open>str.lower()\<close> is not a letter-by-letter map. The Greek capital sigma
  (U+03A3) becomes the final small sigma (U+03C2) at the end of a word and the small
  sigma (U+03C3) elsewhere: the word of capital alpha and capital sigma lowers to small
  alpha and final sigma, and the word of capital alpha, sigma, iota, alpha lowers to
  small alpha, sigma, iota, alpha. The words are written as their UTF-8 bytes.
\<close>

definition greek_alpha_sigma :: string where
  "greek_alpha_sigma = [CHR 0xCE, CHR 0x91, CHR 0xCE, CHR 0xA3]"

definition greek_alpha_sigma_lowered :: string where
  "greek_alpha_sigma_lowered = [CHR 0xCE, CHR 0xB1, CHR 0xCF, CHR 0x82]"

definition greek_asia :: string where
  "greek_asia = [CHR 0xCE, CHR 0x91, CHR 0xCE, CHR 0xA3, CHR 0xCE, CHR 0x99, CHR 0xCE, CHR 0x91]"

definition greek_asia_lowered :: string where
  "greek_asia_lowered =
     [CHR 0xCE, CHR 0xB1, CHR 0xCF, CHR 0x83, CHR 0xCE, CHR 0xB9, CHR 0xCE, CHR 0xB1]"

text \<open>
  The values of \<open>str.lower()\<close> on the strings of the examples below, which are ASCII
  strings and the two Greek words. It stands for the parameter \<open>str_lower\<close> in the
  examples only.
\<close>

definition example_lower :: "string \<Rightarrow> string" where
  "example_lower s =
     (if s = greek_alpha_sigma then greek_alpha_sigma_lowered
      else if s = greek_asia then greek_asia_lowered
      else ascii_lower s)"


section \<open>Example inputs\<close>

definition city_kyoto :: city where
  "city_kyoto =
     \<lparr>name = Some ''Kyoto'', country = Some ''Japan'', region = Some ''East Asia'',
      monthly_temp = Some [5, 6, 9, 15, 20, 23, 27, 28, 24, 18, 12, 7],
      monthly_precip = Some [60, 60, 120, 120, 150, 210, 210, 150, 180, 120, 60, 60],
      peak_months = Some [4, 11], shoulder_months = Some [3, 5, 10],
      tags = Some [''city'', ''culture'']\<rparr>"

definition city_hanoi :: city where
  "city_hanoi =
     \<lparr>name = Some ''Hanoi'', country = Some ''Vietnam'', region = Some ''Southeast Asia'',
      monthly_temp = Some [17, 18, 20, 24, 28, 30, 30, 29, 28, 26, 22, 18],
      monthly_precip = Some [30, 30, 60, 90, 180, 240, 270, 300, 240, 120, 60, 30],
      peak_months = Some [10, 11], shoulder_months = Some [3, 4],
      tags = Some [''city'', ''food'']\<rparr>"

definition city_porto :: city where
  "city_porto =
     \<lparr>name = Some ''Porto'', country = Some ''Portugal'', region = Some ''Europe'',
      monthly_temp = Some [10, 11, 13, 14, 16, 19, 21, 21, 20, 17, 13, 11],
      monthly_precip = Some [150, 120, 90, 120, 90, 30, 30, 30, 60, 150, 150, 180],
      peak_months = Some [7, 8], shoulder_months = Some [5, 6, 9],
      tags = Some [''coastal'', ''city'']\<rparr>"

definition city_lyon :: city where
  "city_lyon =
     \<lparr>name = Some ''Lyon'', country = Some ''France'', region = Some ''Europe'',
      monthly_temp = Some [4, 5, 9, 12, 16, 20, 23, 22, 18, 14, 8, 5],
      monthly_precip = Some [60, 60, 60, 90, 90, 90, 60, 60, 90, 90, 90, 60],
      peak_months = Some [7, 8], shoulder_months = Some [5, 6, 9],
      tags = Some [''city'', ''food'']\<rparr>"

definition catalog :: "city list" where
  "catalog = [city_kyoto, city_hanoi, city_porto, city_lyon]"

text \<open>A catalog entry whose precipitation figures are negative.\<close>

definition city_negative_rain :: city where
  "city_negative_rain =
     \<lparr>name = Some ''Nowhere'', country = Some ''Nowhere'', region = Some ''Nowhere'',
      monthly_temp = Some [10, 10, 10, 10, 10, 10, 10, 10, 10, 10, 10, 10],
      monthly_precip =
        Some [- 30, - 30, - 30, - 30, - 30, - 30, - 30, - 30, - 30, - 30, - 30, - 30],
      peak_months = Some [], shoulder_months = Some [], tags = Some []\<rparr>"


text \<open>The empty preference record: every key is absent.\<close>

definition no_prefs :: preferences where
  "no_prefs =
     \<lparr>travel_month = None, temp_min = None, temp_max = None, rain_tolerance = None,
      crowd_preference = None, environment_tags = None, exclude_regions = None,
      num_results = None\<rparr>"

section \<open>Rounding\<close>

lemma round_half_even_of_int: "round_half_even (of_int k) = k"
  by (simp add: round_half_even_def)

lemma round_half_even_bounds:
  "\<lfloor>x\<rfloor> \<le> round_half_even x" "round_half_even x \<le> \<lfloor>x\<rfloor> + 1"
  by (simp_all add: round_half_even_def Let_def)

lemma round_half_even_mono:
  assumes "x \<le> y"
  shows "round_half_even x \<le> round_half_even y"
proof (cases "\<lfloor>x\<rfloor> = \<lfloor>y\<rfloor>")
  case True
  then have "x - of_int \<lfloor>x\<rfloor> \<le> y - of_int \<lfloor>y\<rfloor>"
    using assms by simp
  with True show ?thesis
    by (auto simp add: round_half_even_def Let_def)
next
  case False
  then have "\<lfloor>x\<rfloor> < \<lfloor>y\<rfloor>"
    using assms floor_mono [of x y] by linarith
  then have "round_half_even x \<le> \<lfloor>y\<rfloor>"
    using round_half_even_bounds(2) [of x] by linarith
  then show ?thesis
    using round_half_even_bounds(1) [of y] by linarith
qed

lemma py_round_mono: "x \<le> y \<Longrightarrow> py_round x n \<le> py_round y n"
  by (simp add: py_round_def round_half_even_mono divide_right_mono)

lemma py_round_multiple: "py_round (of_int k / 10 ^ n) n = of_int k / 10 ^ n"
  by (simp add: py_round_def round_half_even_of_int)

lemma py_round_0: "py_round 0 n = 0"
  using py_round_multiple [of 0 n] by simp

lemma py_round_1: "py_round 1 n = 1"
  using py_round_multiple [of "10 ^ n" n] by simp

lemma py_round_unit: "0 \<le> x \<Longrightarrow> x \<le> 1 \<Longrightarrow> 0 \<le> py_round x n \<and> py_round x n \<le> 1"
  using py_round_mono [of 0 x n] py_round_mono [of x 1 n] by (simp add: py_round_0 py_round_1)


section \<open>The crowd scorer\<close>

lemma map_of_crowd_table:
  "map_of crowd_table p =
     (if p = ''off_peak'' then Some [(''off'', 1.0), (''shoulder'', 0.55), (''peak'', 0.05)]
      else if p = ''shoulder'' then Some [(''shoulder'', 1.0), (''off'', 0.7), (''peak'', 0.25)]
      else if p = ''any'' then Some [(''shoulder'', 1.0), (''off'', 0.85), (''peak'', 0.75)]
      else None)"
  by (simp add: crowd_table_def)

lemma classify_season_cases:
  "classify_season m pk sh =
     (if m \<in> set pk then ''peak'' else if m \<in> set sh then ''shoulder'' else ''off'')"
  by (simp add: classify_season_def)

lemma score_crowd_value:
  "score_crowd m pk sh p =
     Inr (if p = ''off_peak'' then
            (if m \<in> set pk then 0.05 else if m \<in> set sh then 0.55 else 1.0)
          else if p = ''shoulder'' then
            (if m \<in> set pk then 0.25 else if m \<in> set sh then 1.0 else 0.7)
          else
            (if m \<in> set pk then 0.75 else if m \<in> set sh then 1.0 else 0.85))"
  by (simp add: score_crowd_def map_of_crowd_table classify_season_cases dict_item_def)

text \<open>
  Claim C4. For every month and every pair of month lists, the crowd scorer puts the month
  in exactly one season (peak when it is among the peak months, otherwise shoulder when it
  is among the shoulder months, otherwise off) and returns the value of the table for each
  of the three preferences: off_peak gives 1.00, 0.55, 0.05 for off, shoulder, peak;
  shoulder gives 0.70, 1.00, 0.25; any gives 0.85, 1.00, 0.75.
\<close>

theorem crowd_table_exhaustive:
  "score_crowd m pk sh ''off_peak'' =
     Inr (if m \<in> set pk then 0.05 else if m \<in> set sh then 0.55 else 1.00)
   \<and> score_crowd m pk sh ''shoulder'' =
     Inr (if m \<in> set pk then 0.25 else if m \<in> set sh then 1.00 else 0.70)
   \<and> score_crowd m pk sh ''any'' =
     Inr (if m \<in> set pk then 0.75 else if m \<in> set sh then 1.00 else 0.85)
   \<and> classify_season m pk sh =
     (if m \<in> set pk then ''peak'' else if m \<in> set sh then ''shoulder'' else ''off'')"
  by (simp add: score_crowd_value classify_season_cases)

theorem crowd_table_exhaustive_witness:
  "score_crowd 7 [7, 8] [5, 6, 7] ''off_peak'' = Inr 0.05
   \<and> score_crowd 5 [7, 8] [5, 6, 7] ''shoulder'' = Inr 1
   \<and> score_crowd 1 [7, 8] [5, 6, 7] ''any'' = Inr 0.85
   \<and> classify_season 7 [7, 8] [5, 6, 7] = ''peak''"
  using crowd_table_exhaustive [of 7 "[7, 8]" "[5, 6, 7]"]
    crowd_table_exhaustive [of 5 "[7, 8]" "[5, 6, 7]"]
    crowd_table_exhaustive [of 1 "[7, 8]" "[5, 6, 7]"]
  by simp


section \<open>The temperature scorer\<close>

text \<open>
  Claim C7. With neither bound given, the temperature scorer returns exactly 0.65 at every
  city temperature.
\<close>

theorem score_temperature_no_bounds: "score_temperature t None None = 0.65"
  by (simp add: score_temperature_def)

theorem score_temperature_no_bounds_witness: "score_temperature (- 40) None None = 0.65"
  using score_temperature_no_bounds [of "- 40"] by simp


section \<open>The precipitation scorer\<close>

text \<open>
  Claim C6. For every tolerance string, hence for each of low, medium and high, the
  precipitation scorer never grows when the monthly precipitation grows; at 0 mm it
  returns 1, and no non-negative precipitation scores more than 0 mm does.
\<close>

theorem precipitation_monotone:
  "(p \<le> q \<longrightarrow> score_precipitation q tol \<le> score_precipitation p tol)
   \<and> score_precipitation 0 tol = 1
   \<and> (0 \<le> p \<longrightarrow> score_precipitation p tol \<le> score_precipitation 0 tol)"
proof -
  have mono: "score_precipitation y tol \<le> score_precipitation x tol" if "x \<le> y" for x y
  proof -
    define bx where "bx = max 0 (1 - x / 300)"
    define by' where "by' = max 0 (1 - y / 300)"
    have le: "by' \<le> bx" and nn: "0 \<le> by'"
      using that by (simp_all add: bx_def by'_def max_def)
    have "by' powr 0.6 \<le> bx powr 0.6"
      using le nn by (intro powr_mono2) simp_all
    moreover have "0.5 + by' * 0.5 \<le> 0.5 + bx * 0.5"
      using le by simp
    ultimately show ?thesis
      using le by (simp add: score_precipitation_def py_round_mono flip: bx_def by'_def)
  qed
  have zero: "score_precipitation 0 tol = 1"
    by (simp add: score_precipitation_def py_round_1)
  show ?thesis
    using mono [of p q] mono [of 0 p] zero by simp
qed

theorem precipitation_monotone_witness:
  "score_precipitation 150 ''high'' \<le> score_precipitation 30 ''high''
   \<and> score_precipitation 0 ''high'' = 1
   \<and> score_precipitation 150 ''high'' \<le> score_precipitation 0 ''high''"
  using precipitation_monotone [of 30 150 "''high''"] precipitation_monotone [of 150 150 "''high''"]
  by simp


section \<open>Values outside the enumerations\<close>

text \<open>
  Claim C8. A rain tolerance that is neither low nor high makes the precipitation scorer
  return the rounded base score, which is what it returns for medium; a crowd preference
  that names no row of the table makes the crowd scorer answer as for the preference any;
  the crowd scorer returns a score, never an exception, whatever the preference string is
  (the precipitation scorer has no raising operation at all).
\<close>

theorem unknown_enum_fallback:
  "(tol \<noteq> ''low'' \<and> tol \<noteq> ''high'' \<longrightarrow>
      score_precipitation p tol = py_round (max 0 (1 - p / 300)) 4
      \<and> score_precipitation p tol = score_precipitation p ''medium'')
   \<and> (pref \<noteq> ''off_peak'' \<and> pref \<noteq> ''shoulder'' \<longrightarrow>
      score_crowd m pk sh pref = score_crowd m pk sh ''any'')
   \<and> (\<exists>v. score_crowd m pk sh pref = Inr v)"
  by (simp add: score_precipitation_def score_crowd_value)

theorem unknown_enum_fallback_witness:
  "score_precipitation 150 ''monsoon'' = 0.5
   \<and> score_precipitation 150 ''monsoon'' = score_precipitation 150 ''medium''
   \<and> score_crowd 7 [7, 8] [5, 6] ''quiet'' = Inr 0.75
   \<and> score_crowd 7 [7, 8] [5, 6] ''quiet'' = score_crowd 7 [7, 8] [5, 6] ''any''"
  using unknown_enum_fallback [of "''monsoon''" 150 "''quiet''" 7 "[7, 8]" "[5, 6]"]
  by (simp add: py_round_def round_half_even_def score_crowd_value)

section \<open>Bounds of the scorers and the ranking loop\<close>

lemma score_temperature_unit:
  "0 \<le> score_temperature t lo hi \<and> score_temperature t lo hi \<le> 1"
proof (cases "lo = None \<and> hi = None")
  case True
  then show ?thesis by (simp add: score_temperature_def)
next
  case False
  define a where "a = (case lo of None \<Rightarrow> t - 10 | Some v \<Rightarrow> v)"
  define b where "b = (case hi of None \<Rightarrow> t + 10 | Some v \<Rightarrow> v)"
  define h where "h = max ((max a b - min a b) / 2) 1"
  define s where "s = max ((max a b - min a b) / 2) 3"
  define g where "g = max (min a b - t) (t - max a b)"
  have "0 < h" by (simp add: h_def)
  then have "0 \<le> 0.15 * \<bar>t - (min a b + max a b) / 2\<bar> / h"
    by simp
  then have inside: "0 \<le> max 0.85 (1 - 0.15 * \<bar>t - (min a b + max a b) / 2\<bar> / h)"
    "max 0.85 (1 - 0.15 * \<bar>t - (min a b + max a b) / 2\<bar> / h) \<le> 1"
    by simp_all
  have outside: "0 \<le> max 0 (exp (- 0.5 * (g / s) ^ 2))" "max 0 (exp (- 0.5 * (g / s) ^ 2)) \<le> 1"
    by simp_all
  show ?thesis
    using False py_round_unit [OF inside] py_round_unit [OF outside]
    by (simp add: score_temperature_def Let_def flip: a_def b_def h_def s_def g_def)
qed

lemma score_precipitation_lower: "0 \<le> score_precipitation p tol"
proof -
  define b where "b = max 0 (1 - p / 300)"
  have "0 \<le> b" by (simp add: b_def)
  then have "0 \<le> b powr 0.6" "0 \<le> 0.5 + b * 0.5"
    by simp_all
  then show ?thesis
    using \<open>0 \<le> b\<close> py_round_mono [of 0 _ 4]
    by (simp add: score_precipitation_def py_round_0 flip: b_def)
qed

lemma score_precipitation_upper: "0 \<le> p \<Longrightarrow> score_precipitation p tol \<le> 1"
proof -
  assume "0 \<le> p"
  define b where "b = max 0 (1 - p / 300)"
  have b: "0 \<le> b" "b \<le> 1" using \<open>0 \<le> p\<close> by (simp_all add: b_def)
  then have "b powr 0.6 \<le> 1" "0.5 + b * 0.5 \<le> 1"
    by (simp_all add: powr_le1)
  then show ?thesis
    using b py_round_mono [of _ 1 4]
    by (simp add: score_precipitation_def py_round_1 flip: b_def)
qed

lemma score_crowd_unit: "score_crowd m pk sh p = Inr v \<Longrightarrow> 0 \<le> v \<and> v \<le> 1"
  by (auto simp add: score_crowd_value split: if_splits)

lemma score_tags_unit: "0 \<le> score_tags lw cts pts \<and> score_tags lw cts pts \<le> 1"
proof (cases "pts = [] \<or> cts = []")
  case True
  then show ?thesis by (auto simp add: score_tags_def)
next
  case False
  define x where
    "x = real (length (filter (tag_matches (map lw cts)) (map lw pts)))
           / real (length (map lw pts))"
  have "score_tags lw cts pts = py_round (min 1.0 x) 4"
    using False by (simp only: score_tags_def Let_def x_def if_not_P if_False de_Morgan_disj)
  moreover have "0 \<le> min 1.0 x" "min 1.0 x \<le> 1"
    by (simp_all add: x_def)
  ultimately show ?thesis
    using py_round_unit [of "min 1.0 x" 4] by simp
qed

lemma final_unit:
  assumes "0 \<le> t" "t \<le> 1" "0 \<le> r" "r \<le> 1" "0 \<le> c" "c \<le> 1" "0 \<le> g" "g \<le> (1::real)"
  shows "0 \<le> py_round (0.40 * t + 0.30 * r + 0.20 * c + 0.10 * g) 4
         \<and> py_round (0.40 * t + 0.30 * r + 0.20 * c + 0.10 * g) 4 \<le> 1"
  using assms by (intro py_round_unit) simp_all

lemma final_lower:
  assumes "0 \<le> t" "0 \<le> r" "0 \<le> c" "0 \<le> (g::real)"
  shows "0 \<le> py_round (0.40 * t + 0.30 * r + 0.20 * c + 0.10 * g) 4"
proof -
  have "0 \<le> 0.40 * t + 0.30 * r + 0.20 * c + 0.10 * g"
    using assms by simp
  from py_round_mono [OF this, of 4] show ?thesis
    by (simp add: py_round_0)
qed

lemma score_city_Inr:
  assumes "score_city lw m lo hi rt cp pt c = Inr r"
  shows "r_city r = c"
    and "\<exists>ts. monthly_temp c = Some ts \<and> list_item ts m = Inr (md_temp (r_month_data r))"
    and "\<exists>ps. monthly_precip c = Some ps \<and> list_item ps m = Inr (md_precip (r_month_data r))"
    and "s_temp (r_scores r) = score_temperature (md_temp (r_month_data r)) lo hi"
    and "s_rain (r_scores r) = score_precipitation (md_precip (r_month_data r)) rt"
    and "score_crowd (m + 1) (dict_get (peak_months c) []) (dict_get (shoulder_months c) []) cp
           = Inr (s_crowd (r_scores r))"
    and "s_tags (r_scores r) = score_tags lw (dict_get (tags c) []) pt"
    and "s_final (r_scores r) =
           py_round (0.40 * s_temp (r_scores r) + 0.30 * s_rain (r_scores r)
                     + 0.20 * s_crowd (r_scores r) + 0.10 * s_tags (r_scores r)) 4"
    and "md_season (r_month_data r) =
           (if m + 1 \<in> set (dict_get (peak_months c) []) then ''peak season''
            else if m + 1 \<in> set (dict_get (shoulder_months c) []) then ''shoulder season''
            else ''off season'')"
  using assms
  by (auto simp add: score_city_def dict_item_def Let_def split: sum.splits option.splits)

lemma score_all_Inr:
  assumes "score_all lw m lo hi rt cp pt ex cs = Inr rs"
  shows "map r_city rs = filter (\<lambda>c. \<not> city_excluded lw ex c) cs
         \<and> (\<forall>r\<in>set rs. score_city lw m lo hi rt cp pt (r_city r) = Inr r)"
  using assms
proof (induction cs arbitrary: rs)
  case Nil
  then show ?case by simp
next
  case (Cons c cs)
  show ?case
  proof (cases "city_excluded lw ex c")
    case True
    with Cons show ?thesis by simp
  next
    case False
    with Cons.prems obtain r rs' where
      r: "score_city lw m lo hi rt cp pt c = Inr r"
      and rs': "score_all lw m lo hi rt cp pt ex cs = Inr rs'"
      and rs: "rs = r # rs'"
      by (auto split: sum.splits)
    from Cons.IH [OF rs'] score_city_Inr(1) [OF r] r rs False show ?thesis
      by simp
  qed
qed

section \<open>Sorting and slicing\<close>

lemma sorted_sort_reverse: "sorted_wrt (\<lambda>a b. key b \<le> key a) (sort_reverse key xs)"
proof -
  have "sorted (map (\<lambda>x. - key x) (sort_key (\<lambda>x. - key x) xs))"
    by (rule sorted_sort_key)
  then show ?thesis
    by (simp add: sort_reverse_def sorted_wrt_map)
qed

lemma filter_sort_reverse:
  "filter (\<lambda>y. key y = k) (sort_reverse key xs) = filter (\<lambda>y. key y = k) xs"
  using sort_key_stable [of "\<lambda>x. - key x" "- k" xs] by (simp add: sort_reverse_def)

lemma set_sort_reverse: "set (sort_reverse key xs) = set xs"
  by (simp add: sort_reverse_def)

lemma length_sort_reverse: "length (sort_reverse key xs) = length xs"
  by (simp add: sort_reverse_def)

lemma slice_to_take: "\<exists>k. slice_to xs n = take k xs"
  by (auto simp add: slice_to_def)

lemma sorted_wrt_slice_to: "sorted_wrt R xs \<Longrightarrow> sorted_wrt R (slice_to xs n)"
  using slice_to_take [of xs n] by (auto simp add: sorted_wrt_take)

lemma set_slice_to: "set (slice_to xs n) \<subseteq> set xs"
  using slice_to_take [of xs n] by (auto dest: in_set_takeD)

lemma length_slice_to: "length (slice_to xs n) \<le> length xs"
  using slice_to_take [of xs n] by auto

lemma length_slice_to_cap: "0 \<le> n \<Longrightarrow> int (length (slice_to xs n)) \<le> n"
  by (simp add: slice_to_def)

lemma filter_slice_to_prefix: "prefix (filter P (slice_to xs n)) (filter P xs)"
proof -
  obtain k where k: "slice_to xs n = take k xs"
    using slice_to_take by blast
  have "filter P xs = filter P (take k xs) @ filter P (drop k xs)"
    by (simp flip: filter_append)
  then show ?thesis
    unfolding k by (metis prefixI)
qed

lemma rank_cities_scored:
  "rank_cities lw cities prefs top_n =
     (case scored_candidates lw cities prefs of
        Inl e \<Rightarrow> Inl e
      | Inr results \<Rightarrow>
          Inr (slice_to (sort_reverse final_score results) (dict_get (num_results prefs) top_n)))"
proof -
  have "final_score = (\<lambda>x. s_final (r_scores x))"
    by (simp add: final_score_def fun_eq_iff)
  then show ?thesis
    by (simp add: rank_cities_def scored_candidates_def exclude_terms_def Let_def
        split: sum.splits)
qed

lemma scored_candidates_Inr:
  assumes "scored_candidates lw cities prefs = Inr rs"
  shows "map r_city rs = filter (\<lambda>c. \<not> city_excluded lw (exclude_terms lw prefs) c) cities"
    and "\<And>r. r \<in> set rs \<Longrightarrow>
           score_city lw (dict_get (travel_month prefs) 1 - 1) (temp_min prefs) (temp_max prefs)
             (dict_get (rain_tolerance prefs) ''medium'')
             (dict_get (crowd_preference prefs) ''any'')
             (dict_get (environment_tags prefs) []) (r_city r) = Inr r"
  using score_all_Inr [OF assms [unfolded scored_candidates_def]] by simp_all

text \<open>
  Claim C1. Whenever \<open>rank_cities\<close> returns a list: the list is sorted by final score,
  highest first; for every score value the candidates of the output with that score are
  an initial piece of the candidates with that score in catalog order, so ties keep the
  order of the catalog and nothing but the loop order breaks them; the list is no longer
  than the number of cities that pass the exclusion filter; and it is no longer than
  \<open>num_results\<close> (the parameter \<open>top_n\<close>, 8 by default, when the key is absent)
  provided that number is not negative. For a negative \<open>num_results\<close> the slice
  \<open>results[:num_results]\<close> drops that many candidates from the end instead, and the cap
  does not hold.
\<close>

theorem rank_cities_sorted_stable_capped:
  assumes "rank_cities lw cities prefs top_n = Inr out"
  shows "sorted_wrt (\<lambda>a b. final_score b \<le> final_score a) out
     \<and> (\<exists>scored. scored_candidates lw cities prefs = Inr scored
           \<and> map r_city scored = filter (\<lambda>c. \<not> city_excluded lw (exclude_terms lw prefs) c) cities
           \<and> (\<forall>k. prefix (filter (\<lambda>r. final_score r = k) out)
                          (filter (\<lambda>r. final_score r = k) scored)))
     \<and> length out \<le> length (filter (\<lambda>c. \<not> city_excluded lw (exclude_terms lw prefs) c) cities)
     \<and> (0 \<le> dict_get (num_results prefs) top_n
          \<longrightarrow> int (length out) \<le> dict_get (num_results prefs) top_n)"
proof -
  define n where "n = dict_get (num_results prefs) top_n"
  from assms obtain scored where
    scored: "scored_candidates lw cities prefs = Inr scored"
    and out: "out = slice_to (sort_reverse final_score scored) n"
    by (auto simp add: rank_cities_scored n_def split: sum.splits)
  have cities: "map r_city scored = filter (\<lambda>c. \<not> city_excluded lw (exclude_terms lw prefs) c) cities"
    by (rule scored_candidates_Inr(1) [OF scored])
  have sorted: "sorted_wrt (\<lambda>a b. final_score b \<le> final_score a) out"
    unfolding out by (intro sorted_wrt_slice_to sorted_sort_reverse)
  have stable: "prefix (filter (\<lambda>r. final_score r = k) out)
                       (filter (\<lambda>r. final_score r = k) scored)" for k
    using filter_slice_to_prefix [of "\<lambda>r. final_score r = k" "sort_reverse final_score scored" n]
    by (simp add: out filter_sort_reverse)
  have "length out \<le> length scored"
    using length_slice_to [of "sort_reverse final_score scored" n]
    by (simp add: out length_sort_reverse)
  also have "length scored = length (map r_city scored)"
    by simp
  finally have len: "length out \<le> length (filter (\<lambda>c. \<not> city_excluded lw (exclude_terms lw prefs) c) cities)"
    unfolding cities .
  have cap: "0 \<le> n \<longrightarrow> int (length out) \<le> n"
    by (simp add: out length_slice_to_cap)
  from sorted scored cities stable len cap show ?thesis
    unfolding n_def by blast
qed

text \<open>Evaluation of the ranking on the example inputs.\<close>

lemmas example_defs =
  catalog_def no_prefs_def city_kyoto_def city_hanoi_def city_porto_def city_lyon_def
  city_negative_rain_def default_top_n_def

lemmas ranking_defs =
  rank_cities_def dict_get_def dict_item_def list_item_def city_excluded_def score_city_def
  score_temperature_def score_precipitation_def score_crowd_value score_tags_def
  py_round_def round_half_even_def sort_reverse_def slice_to_def final_score_def Let_def

theorem rank_cities_sorted_stable_capped_witness:
  "\<exists>out. rank_cities example_lower catalog (no_prefs\<lparr>num_results := Some 3\<rparr>) default_top_n = Inr out
      \<and> map (\<lambda>r. (name (r_city r), final_score r)) out
          = [(Some ''Hanoi'', 0.765), (Some ''Kyoto'', 0.735), (Some ''Lyon'', 0.735)]
      \<and> sorted_wrt (\<lambda>a b. final_score b \<le> final_score a) out
      \<and> int (length out) \<le> 3"
proof -
  have "map_sum id (map (\<lambda>r. (name (r_city r), final_score r)))
          (rank_cities example_lower catalog (no_prefs\<lparr>num_results := Some 3\<rparr>) default_top_n)
        = Inr [(Some ''Hanoi'', 0.765), (Some ''Kyoto'', 0.735), (Some ''Lyon'', 0.735)]"
    by (simp add: example_defs ranking_defs)
  then obtain out where
    out: "rank_cities example_lower catalog (no_prefs\<lparr>num_results := Some 3\<rparr>) default_top_n = Inr out"
    and names: "map (\<lambda>r. (name (r_city r), final_score r)) out
          = [(Some ''Hanoi'', 0.765), (Some ''Kyoto'', 0.735), (Some ''Lyon'', 0.735)]"
    by (cases "rank_cities example_lower catalog (no_prefs\<lparr>num_results := Some 3\<rparr>) default_top_n") auto
  have "dict_get (num_results (no_prefs\<lparr>num_results := Some 3\<rparr>)) default_top_n = 3"
    by (simp add: dict_get_def)
  with rank_cities_sorted_stable_capped [OF out] out names show ?thesis
    by auto
qed

theorem negative_num_results_counterexample:
  "(case rank_cities example_lower catalog (no_prefs\<lparr>num_results := Some (- 1)\<rparr>) default_top_n of
      Inl e \<Rightarrow> False
    | Inr out \<Rightarrow>
        map (\<lambda>r. name (r_city r)) out = [Some ''Hanoi'', Some ''Kyoto'', Some ''Lyon'']
        \<and> \<not> int (length out)
              \<le> dict_get (num_results (no_prefs\<lparr>num_results := Some (- 1)\<rparr>)) default_top_n)"
  by (simp add: example_defs ranking_defs)

section \<open>Range of the scores\<close>

lemma rank_cities_Inr:
  assumes "rank_cities lw cities prefs top_n = Inr out"
  obtains scored where "scored_candidates lw cities prefs = Inr scored"
    and "out = slice_to (sort_reverse final_score scored) (dict_get (num_results prefs) top_n)"
    and "set out \<subseteq> set scored"
proof -
  from assms obtain scored where
    scored: "scored_candidates lw cities prefs = Inr scored"
    and out: "out = slice_to (sort_reverse final_score scored) (dict_get (num_results prefs) top_n)"
    by (auto simp add: rank_cities_scored split: sum.splits)
  have "set out \<subseteq> set scored"
    using set_slice_to [of "sort_reverse final_score scored" "dict_get (num_results prefs) top_n"]
    by (simp add: out set_sort_reverse)
  with scored out that show thesis
    by blast
qed

text \<open>
  The scores of every returned candidate: the temperature, crowd and tag scores lie
  between 0 and 1, the precipitation score and the final score are never negative, and
  both are at most 1 when the precipitation of the month is not negative.
\<close>

lemma scores_in_unit_interval:
  assumes "rank_cities lw cities prefs top_n = Inr out" and "r \<in> set out"
  shows "0 \<le> s_temp (r_scores r) \<and> s_temp (r_scores r) \<le> 1
     \<and> 0 \<le> s_crowd (r_scores r) \<and> s_crowd (r_scores r) \<le> 1
     \<and> 0 \<le> s_tags (r_scores r) \<and> s_tags (r_scores r) \<le> 1
     \<and> 0 \<le> s_rain (r_scores r) \<and> 0 \<le> s_final (r_scores r)
     \<and> (0 \<le> md_precip (r_month_data r)
          \<longrightarrow> s_rain (r_scores r) \<le> 1 \<and> s_final (r_scores r) \<le> 1)"
proof -
  from assms obtain scored where
    scored: "scored_candidates lw cities prefs = Inr scored" and r: "r \<in> set scored"
    by (auto elim!: rank_cities_Inr)
  note sc = score_city_Inr [OF scored_candidates_Inr(2) [OF scored r]]
  have t: "0 \<le> s_temp (r_scores r)" "s_temp (r_scores r) \<le> 1"
    using score_temperature_unit by (simp_all add: sc(4))
  have c: "0 \<le> s_crowd (r_scores r)" "s_crowd (r_scores r) \<le> 1"
    using score_crowd_unit [OF sc(6)] by simp_all
  have g: "0 \<le> s_tags (r_scores r)" "s_tags (r_scores r) \<le> 1"
    using score_tags_unit by (simp_all add: sc(7))
  have p: "0 \<le> s_rain (r_scores r)"
    by (simp add: sc(5) score_precipitation_lower)
  have f: "0 \<le> s_final (r_scores r)"
    using final_lower [OF t(1) p c(1) g(1)] by (simp add: sc(8))
  have u: "s_rain (r_scores r) \<le> 1 \<and> s_final (r_scores r) \<le> 1"
    if "0 \<le> md_precip (r_month_data r)"
  proof -
    have p1: "s_rain (r_scores r) \<le> 1"
      using that by (simp add: sc(5) score_precipitation_upper)
    with final_unit [OF t p p1 c g] show ?thesis
      by (simp add: sc(8))
  qed
  from t c g p f u show ?thesis
    by blast
qed



section \<open>The exclusion filter\<close>






















section \<open>The empty result\<close>

lemma score_all_all_excluded:
  "(\<forall>c\<in>set cs. city_excluded lw ex c) \<Longrightarrow> score_all lw m lo hi rt cp pt ex cs = Inr []"
  by (induction cs) simp_all

lemma slice_to_Nil: "slice_to [] n = []"
  by (simp add: slice_to_def)

text \<open>
  Claim C9. For the empty list of ranked candidates the formatter returns one string: the
  sentence that no destinations matched the criteria for the month, with the month name
  as given inside it, followed by the advice to broaden the preferences. The list is
  empty when the catalog is empty and when the exclusion filter drops every city.
\<close>

theorem format_empty:
  "format_results_for_claude fmt2 str_num str_upper [] month_name =
     Inr (''[No destinations matched the criteria for '' @ month_name
          @ ''. Suggest broadening preferences.]'')
   \<and> sublist month_name
        (''[No destinations matched the criteria for '' @ month_name
         @ ''. Suggest broadening preferences.]'')
   \<and> rank_cities lw [] prefs top_n = Inr []
   \<and> ((\<forall>c\<in>set cities. city_excluded lw (exclude_terms lw prefs) c)
        \<longrightarrow> rank_cities lw cities prefs top_n = Inr [])"
proof -
  have excl: "rank_cities lw cs prefs top_n = Inr []"
    if "\<forall>c\<in>set cs. city_excluded lw (exclude_terms lw prefs) c" for cs
    using score_all_all_excluded [OF that]
    by (simp add: rank_cities_scored scored_candidates_def sort_reverse_def slice_to_Nil)
  have month: "sublist month_name
        (''[No destinations matched the criteria for '' @ month_name
         @ ''. Suggest broadening preferences.]'')"
    by (rule sublist_appendI)
  have fmt: "format_results_for_claude fmt2 str_num str_upper [] month_name =
     Inr (''[No destinations matched the criteria for '' @ month_name
          @ ''. Suggest broadening preferences.]'')"
    by (simp add: format_results_for_claude_def)
  from excl [of "[]"] have "rank_cities lw [] prefs top_n = Inr []"
    by simp
  with fmt month excl [of cities] show ?thesis
    by (intro conjI impI)
qed

theorem format_empty_witness:
  "format_results_for_claude (\<lambda>x. ''0.00'') (\<lambda>x. ''0'') (\<lambda>s. s) [] ''March'' =
     Inr ''[No destinations matched the criteria for March. Suggest broadening preferences.]''
   \<and> rank_cities example_lower [] no_prefs default_top_n = Inr []
   \<and> rank_cities example_lower catalog
        (no_prefs\<lparr>exclude_regions := Some [''ASIA'', ''Europe'']\<rparr>) default_top_n = Inr []"
proof -
  define prefs where "prefs = no_prefs\<lparr>exclude_regions := Some [''ASIA'', ''Europe'']\<rparr>"
  have "\<forall>c\<in>set catalog. city_excluded example_lower (exclude_terms example_lower prefs) c"
    unfolding prefs_def by code_simp
  with format_empty [of "\<lambda>x. ''0.00''" "\<lambda>x. ''0''" "\<lambda>s. s" "''March''" example_lower
      prefs default_top_n catalog]
    format_empty [of "\<lambda>x. ''0.00''" "\<lambda>x. ''0''" "\<lambda>s. s" "''March''" example_lower
      no_prefs default_top_n catalog]
  show ?thesis
    unfolding prefs_def by simp
qed

section \<open>Month zero\<close>

lemma list_item_minus_one: "xs \<noteq> [] \<Longrightarrow> list_item xs (- 1) = Inr (last xs)"
  by (cases xs rule: rev_cases) (simp_all add: list_item_def nat_add_distrib)

lemma score_city_total:
  assumes "monthly_temp c = Some ts" and "list_item ts m = Inr t"
    and "monthly_precip c = Some ps" and "list_item ps m = Inr p"
  shows "\<exists>r. score_city lw m lo hi rt cp pt c = Inr r"
proof -
  obtain v where "score_crowd (m + 1) (dict_get (peak_months c) [])
      (dict_get (shoulder_months c) []) cp = Inr v"
    by (simp add: score_crowd_value)
  with assms show ?thesis
    by (simp add: score_city_def dict_item_def Let_def)
qed

lemma score_all_total:
  assumes "\<forall>c\<in>set cs. \<not> city_excluded lw ex c \<longrightarrow> (\<exists>r. score_city lw m lo hi rt cp pt c = Inr r)"
  shows "\<exists>rs. score_all lw m lo hi rt cp pt ex cs = Inr rs"
  using assms by (induction cs) auto

text \<open>
  Claim C10. Let \<open>travel_month\<close> be 0 and let every city that passes the exclusion
  filter have both monthly arrays, neither of them empty. Then \<open>rank_cities\<close> raises no
  exception: the month index is \<open>-1\<close>, every city that passes the filter is scored, and
  each candidate reports and is scored on the last entry of the city's temperature array
  and of its precipitation array, which is the December entry (index 11) when the array
  has its 12 entries; the crowd scorer is asked about month 0.
\<close>

theorem travel_month_zero:
  assumes "travel_month prefs = Some 0"
    and "\<forall>c\<in>set cities. \<not> city_excluded lw (exclude_terms lw prefs) c \<longrightarrow>
           (\<exists>ts ps. monthly_temp c = Some ts \<and> monthly_precip c = Some ps
                     \<and> ts \<noteq> [] \<and> ps \<noteq> [])"
  shows "\<exists>scored.
           scored_candidates lw cities prefs = Inr scored
           \<and> rank_cities lw cities prefs top_n
               = Inr (slice_to (sort_reverse final_score scored)
                        (dict_get (num_results prefs) top_n))
           \<and> map r_city scored
               = filter (\<lambda>c. \<not> city_excluded lw (exclude_terms lw prefs) c) cities
           \<and> (\<forall>r\<in>set scored. \<exists>ts ps.
                 monthly_temp (r_city r) = Some ts \<and> monthly_precip (r_city r) = Some ps
                 \<and> md_temp (r_month_data r) = last ts
                 \<and> md_precip (r_month_data r) = last ps
                 \<and> (length ts = 12 \<longrightarrow> last ts = ts ! 11)
                 \<and> (length ps = 12 \<longrightarrow> last ps = ps ! 11)
                 \<and> s_temp (r_scores r)
                     = score_temperature (last ts) (temp_min prefs) (temp_max prefs)
                 \<and> s_rain (r_scores r)
                     = score_precipitation (last ps) (dict_get (rain_tolerance prefs) ''medium'')
                 \<and> score_crowd 0 (dict_get (peak_months (r_city r)) [])
                       (dict_get (shoulder_months (r_city r)) [])
                       (dict_get (crowd_preference prefs) ''any'')
                     = Inr (s_crowd (r_scores r)))"
proof -
  define rt where "rt = dict_get (rain_tolerance prefs) ''medium''"
  define cp where "cp = dict_get (crowd_preference prefs) ''any''"
  define pt where "pt = dict_get (environment_tags prefs) []"
  define ex where "ex = exclude_terms lw prefs"
  have m: "dict_get (travel_month prefs) 1 - 1 = - 1"
    using assms(1) by (simp add: dict_get_def)
  have sc_def: "scored_candidates lw cities prefs
      = score_all lw (- 1) (temp_min prefs) (temp_max prefs) rt cp pt ex cities"
    by (simp add: scored_candidates_def m rt_def cp_def pt_def ex_def)
  have wf: "\<exists>ts ps. monthly_temp c = Some ts \<and> monthly_precip c = Some ps \<and> ts \<noteq> [] \<and> ps \<noteq> []"
    if "c \<in> set cities" and "\<not> city_excluded lw ex c" for c
    using assms(2) that unfolding ex_def by blast
  have "\<exists>r. score_city lw (- 1) (temp_min prefs) (temp_max prefs) rt cp pt c = Inr r"
    if "c \<in> set cities" and "\<not> city_excluded lw ex c" for c
  proof -
    from wf [OF that] obtain ts ps where
      "monthly_temp c = Some ts" "monthly_precip c = Some ps" "ts \<noteq> []" "ps \<noteq> []"
      by blast
    then show ?thesis
      by (intro score_city_total [where ts = ts and ps = ps]) (simp_all add: list_item_minus_one)
  qed
  then have "\<exists>rs. score_all lw (- 1) (temp_min prefs) (temp_max prefs) rt cp pt ex cities = Inr rs"
    by (intro score_all_total) blast
  then obtain scored where scored: "scored_candidates lw cities prefs = Inr scored"
    unfolding sc_def by blast
  have rank: "rank_cities lw cities prefs top_n
               = Inr (slice_to (sort_reverse final_score scored)
                        (dict_get (num_results prefs) top_n))"
    by (simp add: rank_cities_scored scored)
  have cities: "map r_city scored = filter (\<lambda>c. \<not> city_excluded lw ex c) cities"
    unfolding ex_def by (rule scored_candidates_Inr(1) [OF scored])
  have each: "\<exists>ts ps.
                 monthly_temp (r_city r) = Some ts \<and> monthly_precip (r_city r) = Some ps
                 \<and> md_temp (r_month_data r) = last ts
                 \<and> md_precip (r_month_data r) = last ps
                 \<and> (length ts = 12 \<longrightarrow> last ts = ts ! 11)
                 \<and> (length ps = 12 \<longrightarrow> last ps = ps ! 11)
                 \<and> s_temp (r_scores r)
                     = score_temperature (last ts) (temp_min prefs) (temp_max prefs)
                 \<and> s_rain (r_scores r) = score_precipitation (last ps) rt
                 \<and> score_crowd 0 (dict_get (peak_months (r_city r)) [])
                       (dict_get (shoulder_months (r_city r)) []) cp
                     = Inr (s_crowd (r_scores r))"
    if r: "r \<in> set scored" for r
  proof -
    have "score_city lw (- 1) (temp_min prefs) (temp_max prefs) rt cp pt (r_city r) = Inr r"
      using scored_candidates_Inr(2) [OF scored r] by (simp only: m rt_def cp_def pt_def)
    note sc = score_city_Inr [OF this]
    have "r_city r \<in> set (map r_city scored)"
      using r by simp
    then have "r_city r \<in> set cities" "\<not> city_excluded lw ex (r_city r)"
      unfolding cities by simp_all
    from wf [OF this] obtain ts ps where
      ts: "monthly_temp (r_city r) = Some ts" "ts \<noteq> []"
      and ps: "monthly_precip (r_city r) = Some ps" "ps \<noteq> []"
      by blast
    from sc(2) ts have t: "md_temp (r_month_data r) = last ts"
      by (simp add: list_item_minus_one)
    from sc(3) ps have p: "md_precip (r_month_data r) = last ps"
      by (simp add: list_item_minus_one)
    have l: "length xs = 12 \<longrightarrow> last xs = xs ! 11" for xs :: "real list"
      by (cases xs rule: rev_cases) (simp_all add: nth_append)
    from sc(4) t have st: "s_temp (r_scores r)
        = score_temperature (last ts) (temp_min prefs) (temp_max prefs)"
      by simp
    from sc(5) p have sr: "s_rain (r_scores r) = score_precipitation (last ps) rt"
      by simp
    from sc(6) have cr: "score_crowd 0 (dict_get (peak_months (r_city r)) [])
                       (dict_get (shoulder_months (r_city r)) []) cp
                     = Inr (s_crowd (r_scores r))"
      by simp
    from ts(1) ps(1) t p l [of ts] l [of ps] st sr cr show ?thesis
      by (intro exI [of _ ts] exI [of _ ps] conjI)
  qed
  from scored rank cities each show ?thesis
    unfolding rt_def cp_def ex_def by (intro exI [of _ scored] conjI ballI)
qed

theorem travel_month_zero_witness:
  "\<exists>scored.
     scored_candidates example_lower catalog (no_prefs\<lparr>travel_month := Some 0\<rparr>) = Inr scored
     \<and> map (\<lambda>r. (name (r_city r), md_temp (r_month_data r), md_precip (r_month_data r))) scored
         = [(Some ''Kyoto'', 7, 60), (Some ''Hanoi'', 18, 30), (Some ''Porto'', 11, 180),
            (Some ''Lyon'', 5, 60)]
     \<and> rank_cities example_lower catalog (no_prefs\<lparr>travel_month := Some 0\<rparr>) default_top_n
         = Inr (slice_to (sort_reverse final_score scored) 8)"
proof -
  define prefs where "prefs = no_prefs\<lparr>travel_month := Some 0\<rparr>"
  have month: "travel_month prefs = Some 0"
    by (simp add: prefs_def)
  have arrays: "\<forall>c\<in>set catalog. \<not> city_excluded example_lower (exclude_terms example_lower prefs) c \<longrightarrow>
           (\<exists>ts ps. monthly_temp c = Some ts \<and> monthly_precip c = Some ps
                     \<and> ts \<noteq> [] \<and> ps \<noteq> [])"
    by (simp add: example_defs)
  from travel_month_zero [OF month arrays, of default_top_n] obtain scored where
    scored: "scored_candidates example_lower catalog prefs = Inr scored"
    and rank: "rank_cities example_lower catalog prefs default_top_n
               = Inr (slice_to (sort_reverse final_score scored)
                        (dict_get (num_results prefs) default_top_n))"
    by blast
  have "map_sum id
          (map (\<lambda>r. (name (r_city r), md_temp (r_month_data r), md_precip (r_month_data r))))
          (scored_candidates example_lower catalog prefs)
        = Inr [(Some ''Kyoto'', 7, 60), (Some ''Hanoi'', 18, 30), (Some ''Porto'', 11, 180),
               (Some ''Lyon'', 5, 60)]"
    by (simp add: prefs_def scored_candidates_def exclude_terms_def example_defs ranking_defs)
  with scored have vals:
    "map (\<lambda>r. (name (r_city r), md_temp (r_month_data r), md_precip (r_month_data r))) scored
       = [(Some ''Kyoto'', 7, 60), (Some ''Hanoi'', 18, 30), (Some ''Porto'', 11, 180),
          (Some ''Lyon'', 5, 60)]"
    by simp
  have "dict_get (num_results prefs) default_top_n = 8"
    by (simp add: prefs_def no_prefs_def dict_get_def default_top_n_def)
  with scored rank vals show ?thesis
    unfolding prefs_def by (intro exI [of _ scored]) simp
qed

section \<open>Shape of the temperature score\<close>

lemma round_half_even_down:
  assumes "of_int k \<le> x" and "x < of_int k + 1 / 2"
  shows "round_half_even x = k"
proof -
  have "\<lfloor>x\<rfloor> = k"
    using assms by (intro floor_unique) simp_all
  with assms show ?thesis
    by (simp add: round_half_even_def)
qed

lemma exp_minus_upper: "0 \<le> x \<Longrightarrow> exp (- x) \<le> 1 / (1 + x)" for x :: real
proof -
  assume "0 \<le> x"
  have "1 + x \<le> exp x"
    by (rule exp_ge_add_one_self)
  with \<open>0 \<le> x\<close> have "inverse (exp x) \<le> inverse (1 + x)"
    by (intro le_imp_inverse_le) simp_all
  then show ?thesis
    by (simp add: exp_minus inverse_eq_divide)
qed

lemma score_temperature_inside:
  assumes "lo \<le> hi" and "lo \<le> t" and "t \<le> hi"
  shows "score_temperature t (Some lo) (Some hi)
           = py_round (max 0.85 (1 - 0.15 * \<bar>t - (lo + hi) / 2\<bar> / max ((hi - lo) / 2) 1)) 4"
  using assms by (simp add: score_temperature_def Let_def)

lemma score_temperature_outside:
  assumes "lo \<le> hi" and "t < lo \<or> hi < t"
  shows "score_temperature t (Some lo) (Some hi)
           = py_round (exp (- 0.5 * (max (lo - t) (t - hi) / max ((hi - lo) / 2) 3) ^ 2)) 4"
  using assms by (auto simp add: score_temperature_def Let_def max_def)

lemma py_round_085: "py_round (17 / 20) 4 = 17 / 20"
  by (simp add: py_round_def round_half_even_def)

lemma score_temperature_midpoint:
  "lo \<le> hi \<Longrightarrow> score_temperature ((lo + hi) / 2) (Some lo) (Some hi) = 1"
  by (simp add: score_temperature_inside py_round_1)

lemma score_temperature_in_range:
  assumes "lo \<le> hi" and "lo \<le> t" and "t \<le> hi"
  shows "0.85 \<le> score_temperature t (Some lo) (Some hi)"
proof -
  have "py_round 0.85 4
          \<le> py_round (max 0.85 (1 - 0.15 * \<bar>t - (lo + hi) / 2\<bar> / max ((hi - lo) / 2) 1)) 4"
    by (rule py_round_mono) simp
  then show ?thesis
    by (simp add: score_temperature_inside [OF assms] py_round_085)
qed

lemma score_temperature_one_sigma:
  assumes "lo \<le> hi"
  shows "score_temperature (hi + max ((hi - lo) / 2) 3) (Some lo) (Some hi) \<le> 0.85"
    and "score_temperature (lo - max ((hi - lo) / 2) 3) (Some lo) (Some hi) \<le> 0.85"
proof -
  define s where "s = max ((hi - lo) / 2) 3"
  have s: "0 < s" by (simp add: s_def)
  have gap_hi: "max (lo - (hi + s)) (hi + s - hi) = s"
    using assms s by simp
  have gap_lo: "max (lo - (lo - s)) (lo - s - hi) = s"
    using assms s by simp
  have "exp (- (1 / 2)) \<le> (2 / 3 :: real)"
    using exp_minus_upper [of "1 / 2"] by simp
  then have "py_round (exp (- (1 / 2))) 4 \<le> py_round (2 / 3) 4"
    by (rule py_round_mono)
  also have "py_round (2 / 3) 4 = 0.6667"
    by (simp add: py_round_def round_half_even_def)
  finally have r: "py_round (exp (- (1 / 2))) 4 \<le> 0.85"
    by simp
  have "score_temperature (hi + s) (Some lo) (Some hi) = py_round (exp (- (1 / 2))) 4"
    using assms s by (subst score_temperature_outside) (simp_all add: gap_hi flip: s_def)
  with r show "score_temperature (hi + max ((hi - lo) / 2) 3) (Some lo) (Some hi) \<le> 0.85"
    by (simp add: s_def)
  have "score_temperature (lo - s) (Some lo) (Some hi) = py_round (exp (- (1 / 2))) 4"
    using assms s by (subst score_temperature_outside) (simp_all add: gap_lo flip: s_def)
  with r show "score_temperature (lo - max ((hi - lo) / 2) 3) (Some lo) (Some hi) \<le> 0.85"
    by (simp add: s_def)
qed

lemma score_temperature_chain:
  assumes "lo \<le> hi"
  shows "score_temperature hi (Some lo) (Some hi)
           \<le> score_temperature ((lo + hi) / 2) (Some lo) (Some hi)"
    and "score_temperature (hi + max ((hi - lo) / 2) 3) (Some lo) (Some hi)
           \<le> score_temperature hi (Some lo) (Some hi)"
  using score_temperature_unit [of hi "Some lo" "Some hi"]
    score_temperature_midpoint [OF assms]
    score_temperature_in_range [OF assms assms order_refl]
    score_temperature_one_sigma(1) [OF assms]
  by simp_all

lemma score_temperature_decay:
  assumes "lo \<le> hi" and "hi < t" and "t \<le> u"
  shows "score_temperature u (Some lo) (Some hi) \<le> score_temperature t (Some lo) (Some hi)"
proof -
  define s where "s = max ((hi - lo) / 2) 3"
  have s: "0 < s" by (simp add: s_def)
  have gt: "max (lo - t) (t - hi) = t - hi" and gu: "max (lo - u) (u - hi) = u - hi"
    using assms by simp_all
  have "(t - hi) / s \<le> (u - hi) / s" "0 \<le> (t - hi) / s"
    using assms s by (simp_all add: divide_right_mono)
  then have "((t - hi) / s) ^ 2 \<le> ((u - hi) / s) ^ 2"
    by (intro power_mono)
  then have "exp (- 0.5 * ((u - hi) / s) ^ 2) \<le> exp (- 0.5 * ((t - hi) / s) ^ 2)"
    by simp
  then show ?thesis
    using assms by (simp add: score_temperature_outside gt gu py_round_mono flip: s_def)
qed

lemma score_temperature_decay_below:
  assumes "lo \<le> hi" and "t < lo" and "u \<le> t"
  shows "score_temperature u (Some lo) (Some hi) \<le> score_temperature t (Some lo) (Some hi)"
proof -
  define s where "s = max ((hi - lo) / 2) 3"
  have s: "0 < s" by (simp add: s_def)
  have gt: "max (lo - t) (t - hi) = lo - t" and gu: "max (lo - u) (u - hi) = lo - u"
    using assms by simp_all
  have "(lo - t) / s \<le> (lo - u) / s" "0 \<le> (lo - t) / s"
    using assms s by (simp_all add: divide_right_mono)
  then have "((lo - t) / s) ^ 2 \<le> ((lo - u) / s) ^ 2"
    by (intro power_mono)
  then have "exp (- 0.5 * ((lo - u) / s) ^ 2) \<le> exp (- 0.5 * ((lo - t) / s) ^ 2)"
    by simp
  then show ?thesis
    using assms by (simp add: score_temperature_outside gt gu py_round_mono flip: s_def)
qed

text \<open>
  Claim C3. The claim is that, with both bounds given, the temperature score never grows
  with the distance of the city temperature from the preferred range. The three named
  points are in order (\<open>score_temperature_chain\<close>) and beyond a bound the score decays
  (\<open>score_temperature_decay\<close>, \<open>score_temperature_decay_below\<close>), but the two
  branches do not meet at the bound: inside, the score falls to 0.85 at the bound, and
  just outside the Gaussian starts again from 1.
  For the range from 10 to 20 the code returns 0.85 at 20, which is in the range, and
  0.9998 at 20.1, which is outside it: the score grows with the distance there.
\<close>

theorem temperature_boundary_jump:
  "score_temperature 20 (Some 10) (Some 20) = 0.85
   \<and> score_temperature 20.1 (Some 10) (Some 20) = 0.9998
   \<and> score_temperature 20 (Some 10) (Some 20) < score_temperature 20.1 (Some 10) (Some 20)"
proof -
  have inside: "score_temperature 20 (Some 10) (Some 20) = 0.85"
    by (simp add: score_temperature_inside py_round_085)
  have "score_temperature 20.1 (Some 10) (Some 20) = py_round (exp (- (1 / 5000))) 4"
    by (subst score_temperature_outside) (simp_all add: power2_eq_square)
  moreover have "round_half_even (exp (- (1 / 5000)) * 10 ^ 4) = 9998"
  proof (rule round_half_even_down)
    have "1 + - (1 / 5000) \<le> exp (- (1 / 5000 :: real))"
      by (rule exp_ge_add_one_self)
    then show "of_int 9998 \<le> exp (- (1 / 5000)) * (10 ^ 4 :: real)"
      by simp
    have "exp (- (1 / 5000)) \<le> (5000 / 5001 :: real)"
      using exp_minus_upper [of "1 / 5000"] by simp
    then show "exp (- (1 / 5000)) * (10 ^ 4 :: real) < of_int 9998 + 1 / 2"
      by simp
  qed
  ultimately have outside: "score_temperature 20.1 (Some 10) (Some 20) = 0.9998"
    by (simp add: py_round_def)
  from inside outside show ?thesis
    by simp
qed

end
